theory Spec2Isabelle
  imports Complex_Main "HOL-Library.Product_Lexorder" "HOL-Library.Char_ord" "HOL-Library.List_Lexorder" "HOL-Library.Multiset"
begin

section \<open>Numbers and timestamps\<close>

text \<open>
  The ledger of \<^verbatim>\<open>database.py\<close> stores quantities as SQLite REAL and handles them as
  Python floats. They are modelled as exact rationals: the ledger only adds, subtracts,
  compares and rounds, so no infinite or undefined value arises there. Python's
  \<^verbatim>\<open>round(x, n)\<close> rounds half to even on the exact value.
\<close>

definition rint :: "rat \<Rightarrow> int" where
  "rint x = (let f = \<lfloor>x\<rfloor>; d = x - of_int f
             in if d < 1/2 then f else if 1/2 < d then f + 1
                else if even f then f else f + 1)"

definition py_round :: "rat \<Rightarrow> nat \<Rightarrow> rat" where
  "py_round x nd = of_int (rint (x * 10 ^ nd)) / 10 ^ nd"

text \<open>
  \<^verbatim>\<open>datetime.now()\<close> is a parameter of every operation. A timestamp is the pair of its
  day number and the second of that day; the text \<^verbatim>\<open>'%Y-%m-%d %H:%M:%S'\<close> that the code
  stores has fixed width, so SQLite's text order on it is the lexicographic order of the
  pair, and \<^verbatim>\<open>DATE(created_at)\<close> and a \<^verbatim>\<open>'%Y-%m-%d'\<close> text are the day number.
\<close>

type_synonym datetime = "int \<times> nat"

definition date_of :: "datetime \<Rightarrow> int" where
  "date_of t = fst t"

section \<open>Tables of the store\<close>

record inventory_item =
  item_name :: string
  category :: string
  quantity :: rat
  unit :: string
  total_purchased :: rat
  last_updated :: datetime

record txn =
  t_item_name :: string
  t_category :: string
  t_quantity :: rat
  t_unit :: string
  transaction_type :: string
  user_id :: nat
  username :: string
  rate :: "rat option"
  amount :: "rat option"
  vendor :: "string option"
  t_notes :: "string option"
  created_at :: datetime

record store =
  store_inventory :: "inventory_item list"
  transactions :: "txn list"

definition empty_store :: store where
  "empty_store = \<lparr>store_inventory = [], transactions = []\<rparr>"

text \<open>\<^verbatim>\<open>SELECT * FROM store_inventory WHERE item_name = ?\<close> followed by \<^verbatim>\<open>fetchone()\<close>.\<close>

definition select_item :: "inventory_item list \<Rightarrow> string \<Rightarrow> inventory_item option" where
  "select_item tbl name = find (\<lambda>r. item_name r = name) tbl"

text \<open>\<^verbatim>\<open>UPDATE store_inventory SET ... WHERE item_name = ?\<close>: every matching row is rewritten.\<close>

definition update_where :: "string \<Rightarrow> (inventory_item \<Rightarrow> inventory_item) \<Rightarrow> inventory_item list \<Rightarrow> inventory_item list" where
  "update_where name f tbl = map (\<lambda>r. if item_name r = name then f r else r) tbl"

definition delete_where :: "string \<Rightarrow> inventory_item list \<Rightarrow> inventory_item list" where
  "delete_where name tbl = filter (\<lambda>r. item_name r \<noteq> name) tbl"

datatype failure =
    ItemNotFound
  | NotEnoughStock rat string
  | ItemAlreadyExists
  | NameAlreadyExists
  | MissingRequiredFields
  | InvalidItemOrQuantity
  | FailedToAddItem

section \<open>Ledger operations of database.py\<close>

definition add_item ::
  "datetime \<Rightarrow> string \<Rightarrow> string \<Rightarrow> rat \<Rightarrow> string \<Rightarrow> nat \<Rightarrow> string \<Rightarrow>
   rat option \<Rightarrow> rat option \<Rightarrow> string option \<Rightarrow> store \<Rightarrow> bool \<times> store" where
  "add_item now name cat qty0 un uid uname rt amt vnd s =
    (let qty = py_round qty0 3;
         tbl = store_inventory s;
         tbl' = (case select_item tbl name of
                   Some existing \<Rightarrow>
                     (let new_qty = py_round (quantity existing + qty) 3;
                          new_total = py_round (total_purchased existing + qty) 3
                      in update_where name
                           (\<lambda>r. r\<lparr>quantity := new_qty, total_purchased := new_total,
                                   last_updated := now\<rparr>) tbl)
                 | None \<Rightarrow>
                     tbl @ [\<lparr>item_name = name, category = cat, quantity = qty, unit = un,
                             total_purchased = qty, last_updated = now\<rparr>]);
         t = \<lparr>t_item_name = name, t_category = cat, t_quantity = qty, t_unit = un,
              transaction_type = ''purchase'', user_id = uid, username = uname,
              rate = rt, amount = amt, vendor = vnd, t_notes = None, created_at = now\<rparr>
     in (True, \<lparr>store_inventory = tbl', transactions = transactions s @ [t]\<rparr>))"

definition remove_item ::
  "datetime \<Rightarrow> string \<Rightarrow> rat \<Rightarrow> nat \<Rightarrow> string \<Rightarrow> string option \<Rightarrow> store \<Rightarrow> failure + store" where
  "remove_item now name qty0 uid uname nts s =
    (let qty = py_round qty0 3;
         tbl = store_inventory s
     in case select_item tbl name of
          None \<Rightarrow> Inl ItemNotFound
        | Some existing \<Rightarrow>
            (let available_qty = py_round (quantity existing) 3
             in if available_qty + 1/1000 < qty
                then Inl (NotEnoughStock available_qty (unit existing))
                else
                  (let nq = py_round (available_qty - qty) 3;
                       new_quantity = (if nq < 0 then 0 else nq);
                       tbl' = update_where name
                                (\<lambda>r. r\<lparr>quantity := new_quantity, last_updated := now\<rparr>) tbl;
                       t = \<lparr>t_item_name = name, t_category = category existing,
                            t_quantity = qty, t_unit = unit existing,
                            transaction_type = ''kitchen'', user_id = uid, username = uname,
                            rate = None, amount = None, vendor = None, t_notes = nts,
                            created_at = now\<rparr>
                   in Inr \<lparr>store_inventory = tbl', transactions = transactions s @ [t]\<rparr>)))"

definition manager_add_item ::
  "datetime \<Rightarrow> string \<Rightarrow> string \<Rightarrow> rat \<Rightarrow> string \<Rightarrow> nat \<Rightarrow> string \<Rightarrow> store \<Rightarrow> failure + store" where
  "manager_add_item now name cat qty un uid uname s =
    (case select_item (store_inventory s) name of
       Some existing \<Rightarrow> Inl ItemAlreadyExists
     | None \<Rightarrow>
         (let row = \<lparr>item_name = name, category = cat, quantity = qty, unit = un,
                     total_purchased = 0, last_updated = now\<rparr>;
              t = \<lparr>t_item_name = name, t_category = cat, t_quantity = qty, t_unit = un,
                   transaction_type = ''manager_add'', user_id = uid, username = uname,
                   rate = None, amount = None, vendor = None,
                   t_notes = Some ''Added by manager'', created_at = now\<rparr>
          in Inr \<lparr>store_inventory = store_inventory s @ [row],
                  transactions = transactions s @ [t]\<rparr>))"

definition manager_update_item ::
  "datetime \<Rightarrow> string \<Rightarrow> string \<Rightarrow> string \<Rightarrow> rat \<Rightarrow> string \<Rightarrow> nat \<Rightarrow> string \<Rightarrow> store \<Rightarrow> failure + store" where
  "manager_update_item now original_name name cat qty un uid uname s =
    (let tbl = store_inventory s
     in case select_item tbl original_name of
          None \<Rightarrow> Inl ItemNotFound
        | Some existing \<Rightarrow>
            (let old_quantity = quantity existing
             in if original_name \<noteq> name \<and> select_item tbl name \<noteq> None
                then Inl NameAlreadyExists
                else
                  (let tbl' = update_where original_name
                                (\<lambda>r. r\<lparr>item_name := name, category := cat, quantity := qty,
                                        unit := un, last_updated := now\<rparr>) tbl;
                       quantity_diff = qty - old_quantity;
                       logged =
                         (if quantity_diff \<noteq> 0
                          then [\<lparr>t_item_name = name, t_category = cat,
                                  t_quantity = (if 0 < quantity_diff then quantity_diff
                                                else \<bar>quantity_diff\<bar>),
                                  t_unit = un,
                                  transaction_type = (if 0 < quantity_diff then ''purchase''
                                                      else ''kitchen''),
                                  user_id = uid, username = uname,
                                  rate = None, amount = None, vendor = None,
                                  t_notes = Some ''Adjusted by Manager'', created_at = now\<rparr>]
                          else [])
                   in Inr \<lparr>store_inventory = tbl', transactions = transactions s @ logged\<rparr>)))"

definition manager_delete_item ::
  "datetime \<Rightarrow> string \<Rightarrow> nat \<Rightarrow> string \<Rightarrow> store \<Rightarrow> failure + store" where
  "manager_delete_item now name uid uname s =
    (case select_item (store_inventory s) name of
       None \<Rightarrow> Inl ItemNotFound
     | Some existing \<Rightarrow>
         (let t = \<lparr>t_item_name = item_name existing, t_category = category existing,
                   t_quantity = quantity existing, t_unit = unit existing,
                   transaction_type = ''manager_delete'', user_id = uid, username = uname,
                   rate = None, amount = None, vendor = None,
                   t_notes = Some ''Deleted by manager'', created_at = now\<rparr>
          in Inr \<lparr>store_inventory = delete_where name (store_inventory s),
                  transactions = transactions s @ [t]\<rparr>))"

subsection \<open>Low-stock query\<close>





section \<open>Requests of app.py\<close>


definition api_purchase ::
  "datetime \<Rightarrow> nat \<Rightarrow> string \<Rightarrow> string \<Rightarrow> string \<Rightarrow> rat \<Rightarrow> string \<Rightarrow>
   rat option \<Rightarrow> rat option \<Rightarrow> string option \<Rightarrow> store \<Rightarrow> failure + store" where
  "api_purchase now uid uname name cat qty un rt amt vnd s =
    (if name = [] \<or> cat = [] \<or> qty = 0 \<or> un = [] then Inl MissingRequiredFields
     else case add_item now name cat qty un uid uname rt amt vnd s of
            (success, s') \<Rightarrow> if success then Inr s' else Inl FailedToAddItem)"

definition api_kitchen ::
  "datetime \<Rightarrow> nat \<Rightarrow> string \<Rightarrow> string \<Rightarrow> rat \<Rightarrow> string option \<Rightarrow> store \<Rightarrow> failure + store" where
  "api_kitchen now uid uname name qty nts s =
    (if name = [] \<or> qty \<le> 0 then Inl InvalidItemOrQuantity
     else remove_item now name qty uid uname nts s)"

section \<open>Sequences of ledger operations\<close>


datatype ledger_op =
    Purchase string string rat string "rat option" "rat option" "string option"
  | Issue string rat "string option"
  | ManagerAdd string string rat string
  | ManagerUpdate string string string rat string
  | ManagerDelete string

record request =
  req_time :: datetime
  req_user_id :: nat
  req_username :: string
  req_op :: ledger_op

fun apply_op :: "datetime \<Rightarrow> nat \<Rightarrow> string \<Rightarrow> ledger_op \<Rightarrow> store \<Rightarrow> failure + store" where
  "apply_op now uid uname (Purchase name cat qty un rt amt vnd) s =
     Inr (snd (add_item now name cat qty un uid uname rt amt vnd s))"
| "apply_op now uid uname (Issue name qty nts) s = remove_item now name qty uid uname nts s"
| "apply_op now uid uname (ManagerAdd name cat qty un) s =
     manager_add_item now name cat qty un uid uname s"
| "apply_op now uid uname (ManagerUpdate original_name name cat qty un) s =
     manager_update_item now original_name name cat qty un uid uname s"
| "apply_op now uid uname (ManagerDelete name) s = manager_delete_item now name uid uname s"

definition apply_request :: "request \<Rightarrow> store \<Rightarrow> store" where
  "apply_request rq s =
     (case apply_op (req_time rq) (req_user_id rq) (req_username rq) (req_op rq) s of
        Inl e \<Rightarrow> s | Inr s' \<Rightarrow> s')"

definition run :: "request list \<Rightarrow> store \<Rightarrow> store" where
  "run rqs s = fold apply_request rqs s"

fun positive_stock_op :: "ledger_op \<Rightarrow> bool" where
  "positive_stock_op (Purchase name cat qty un rt amt vnd) = (0 < qty)"
| "positive_stock_op (Issue name qty nts) = (0 < qty)"
| "positive_stock_op _ = False"

definition total_of :: "store \<Rightarrow> string \<Rightarrow> rat" where
  "total_of s name = (case select_item (store_inventory s) name of
                        None \<Rightarrow> 0 | Some r \<Rightarrow> total_purchased r)"

definition ledger_ok :: "store \<Rightarrow> bool" where
  "ledger_ok s = (distinct (map item_name (store_inventory s)) \<and>
                  (\<forall>r \<in> set (store_inventory s).
                    0 \<le> quantity r \<and> quantity r \<le> total_purchased r
                    \<and> py_round (total_purchased r) 3 = total_purchased r))"

definition rows_of :: "store \<Rightarrow> string \<Rightarrow> inventory_item list" where
  "rows_of s n = filter (\<lambda>r. item_name r = n) (store_inventory s)"

section \<open>Transaction history\<close>

text \<open>
  \<open>get_transactions\<close> builds one SELECT. The first condition compares the stored text
  \<^verbatim>\<open>created_at\<close> with the day text of thirty days ago; a timestamp text extends its day
  text, so it is at least the bound exactly when its day is. An absent or empty filter
  argument is falsy and adds no condition (\<open>None\<close>; for the type also the empty text).
  A negative \<^verbatim>\<open>LIMIT\<close> means no limit in SQLite. Rows with equal \<^verbatim>\<open>created_at\<close> come in
  an order the query does not fix.
\<close>

definition sql_limit :: "int \<Rightarrow> 'a list \<Rightarrow> 'a list" where
  "sql_limit limit rows = (if limit < 0 then rows else take (nat limit) rows)"

definition order_by_desc :: "('a \<Rightarrow> 'k::linorder) \<Rightarrow> 'a list \<Rightarrow> 'a list" where
  "order_by_desc key rows = rev (sort_key key (rev rows))"

definition get_transactions ::
  "datetime \<Rightarrow> int \<Rightarrow> string option \<Rightarrow> int option \<Rightarrow> int option \<Rightarrow> int option \<Rightarrow>
   txn list \<Rightarrow> txn list" where
  "get_transactions now limit ttype date_filter from_date to_date txns =
    (let thirty_days_ago = date_of now - 30;
         recent = (\<lambda>t. thirty_days_ago \<le> date_of (created_at t));
         of_type = (case ttype of
                      Some ty \<Rightarrow> if ty \<noteq> [] then (\<lambda>t. transaction_type t = ty) else (\<lambda>t. True)
                    | None \<Rightarrow> (\<lambda>t. True));
         in_range = (case (from_date, to_date) of
                       (Some f, Some u) \<Rightarrow> (\<lambda>t. f \<le> date_of (created_at t) \<and> date_of (created_at t) \<le> u)
                     | (Some f, None) \<Rightarrow> (\<lambda>t. f \<le> date_of (created_at t))
                     | (None, Some u) \<Rightarrow> (\<lambda>t. date_of (created_at t) \<le> u)
                     | (None, None) \<Rightarrow>
                         (case date_filter of
                            Some d \<Rightarrow> (\<lambda>t. date_of (created_at t) = d)
                          | None \<Rightarrow> (\<lambda>t. True)))
     in sql_limit limit
          (order_by_desc created_at (filter (\<lambda>t. recent t \<and> of_type t \<and> in_range t) txns)))"

section \<open>Analysis reports of analysis.py\<close>

text \<open>
  The reports compute on pandas columns of numpy float64. A value is modelled as an exact
  rational or one of the three special values of IEEE arithmetic, which is where a
  division by zero ends up: \<open>x / 0\<close> is plus or minus infinity for \<open>x \<noteq> 0\<close> and
  \<open>0 / 0\<close> is not-a-number; no exception is raised. Rounding error and overflow of finite
  arithmetic are not modelled, zero has no sign, and the input records hold finite numbers.
\<close>

datatype fl = Fin rat | PInf | NInf | NaN

fun fl_div :: "fl \<Rightarrow> fl \<Rightarrow> fl" where
  "fl_div NaN y = NaN"
| "fl_div x NaN = NaN"
| "fl_div (Fin a) (Fin b) =
     (if b \<noteq> 0 then Fin (a / b) else if 0 < a then PInf else if a < 0 then NInf else NaN)"
| "fl_div (Fin a) y = Fin 0"
| "fl_div PInf (Fin b) = (if 0 \<le> b then PInf else NInf)"
| "fl_div NInf (Fin b) = (if 0 \<le> b then NInf else PInf)"
| "fl_div x y = NaN"

fun fl_mul :: "fl \<Rightarrow> fl \<Rightarrow> fl" where
  "fl_mul NaN y = NaN"
| "fl_mul x NaN = NaN"
| "fl_mul (Fin a) (Fin b) = Fin (a * b)"
| "fl_mul (Fin a) PInf = (if 0 < a then PInf else if a < 0 then NInf else NaN)"
| "fl_mul (Fin a) NInf = (if 0 < a then NInf else if a < 0 then PInf else NaN)"
| "fl_mul PInf (Fin b) = (if 0 < b then PInf else if b < 0 then NInf else NaN)"
| "fl_mul NInf (Fin b) = (if 0 < b then NInf else if b < 0 then PInf else NaN)"
| "fl_mul PInf PInf = PInf"
| "fl_mul NInf NInf = PInf"
| "fl_mul x y = NInf"



fun is_nan :: "fl \<Rightarrow> bool" where
  "is_nan NaN = True"
| "is_nan x = False"

text \<open>The order of the values that are not NaN: minus infinity, the rationals, plus infinity.\<close>

fun fl_rank :: "fl \<Rightarrow> int \<times> rat" where
  "fl_rank NInf = (0, 0)"
| "fl_rank (Fin a) = (1, a)"
| "fl_rank PInf = (2, 0)"
| "fl_rank NaN = (3, 0)"

text \<open>\<open>x >= y\<close> on floats: false as soon as one side is NaN.\<close>

definition fl_ge :: "fl \<Rightarrow> fl \<Rightarrow> bool" where
  "fl_ge x y = (\<not> is_nan x \<and> \<not> is_nan y \<and> fl_rank y \<le> fl_rank x)"



text \<open>
  \<^verbatim>\<open>groupby(key)\<close>: the distinct keys in ascending order, each with its rows in frame order.
\<close>

definition groupby :: "('r \<Rightarrow> string) \<Rightarrow> 'r list \<Rightarrow> (string \<times> 'r list) list" where
  "groupby key rows =
     map (\<lambda>k. (k, filter (\<lambda>r. key r = k) rows)) (sort (remdups (map key rows)))"




record purchase_record =
  purchase_date :: datetime
  purchase_item_name :: string
  purchase_quantity :: rat
  purchase_unit :: string
  purchase_rate :: rat
  purchase_amount :: rat




subsection \<open>Leakage and waste\<close>







subsection \<open>Theoretical against actual consumption\<close>








subsection \<open>Purchase price trends\<close>

record price_trend =
  trend_dates :: "datetime list"
  prices :: "rat list"
  first_price :: rat
  last_price :: rat
  change :: fl

text \<open>
  \<^verbatim>\<open>nlargest(5)\<close>: the five largest totals in descending order, equal totals in index
  order. \<^verbatim>\<open>item_data.iloc[0]\<close> and \<^verbatim>\<open>iloc[-1]\<close> raise IndexError on an empty frame
  (\<open>None\<close>); the rates read from the frame are numpy scalars, so the division by a zero
  first price gives an infinity or NaN and raises nothing. \<^verbatim>\<open>sort_values('Date')\<close> leaves
  the order of purchases with equal dates open; the model keeps their frame order.
\<close>

definition top_items :: "purchase_record list \<Rightarrow> string list" where
  "top_items purchase_df =
     map fst (take 5 (order_by_desc snd
       (map (\<lambda>(k, grp). (k, sum_list (map purchase_amount grp)))
          (groupby purchase_item_name purchase_df))))"

definition trend_of :: "purchase_record list \<Rightarrow> price_trend option" where
  "trend_of item_data =
     (case item_data of
        [] \<Rightarrow> None
      | r # rs \<Rightarrow>
          (let first_price = purchase_rate r;
               last_price = purchase_rate (last (r # rs))
           in Some \<lparr>trend_dates = map purchase_date item_data,
                     prices = map purchase_rate item_data,
                     first_price = first_price, last_price = last_price,
                     change = fl_mul (fl_div (Fin (last_price - first_price)) (Fin first_price))
                                (Fin 100)\<rparr>))"

definition item_trend :: "purchase_record list \<Rightarrow> string \<Rightarrow> (string \<times> price_trend) option" where
  "item_trend purchase_df item =
     map_option (Pair item)
       (trend_of (sort_key purchase_date (filter (\<lambda>r. purchase_item_name r = item) purchase_df)))"

definition price_trend_analysis :: "purchase_record list \<Rightarrow> (string \<times> price_trend) list option" where
  "price_trend_analysis purchase_df = those (map (item_trend purchase_df) (top_items purchase_df))"

subsection \<open>Menu engineering\<close>









section \<open>Example data\<close>

definition stock_row :: "rat \<Rightarrow> rat \<Rightarrow> inventory_item" where
  "stock_row tp q = \<lparr>item_name = ''Rice'', category = ''Grocery'', quantity = q,
                     unit = ''KG'', total_purchased = tp, last_updated = (0, 0)\<rparr>"

definition request_of :: "ledger_op \<Rightarrow> request" where
  "request_of op = \<lparr>req_time = (20000, 0), req_user_id = 1, req_username = ''manager'', req_op = op\<rparr>"

definition rice_store :: store where
  "rice_store = \<lparr>store_inventory = [stock_row 10 10], transactions = []\<rparr>"

definition issued_store :: store where
  "issued_store = \<lparr>store_inventory = [(stock_row 10 6)\<lparr>last_updated := (3, 0)\<rparr>],
     transactions = [\<lparr>t_item_name = ''Rice'', t_category = ''Grocery'', t_quantity = 4,
        t_unit = ''KG'', transaction_type = ''kitchen'', user_id = 3,
        username = ''kitchen_manager'', rate = None, amount = None, vendor = None,
        t_notes = None, created_at = (3, 0)\<rparr>]\<rparr>"

definition updated_store :: store where
  "updated_store = \<lparr>store_inventory =
       [\<lparr>item_name = ''Basmati'', category = ''Grocery'', quantity = 25, unit = ''KG'',
         total_purchased = 10, last_updated = (4, 0)\<rparr>],
     transactions = [\<lparr>t_item_name = ''Basmati'', t_category = ''Grocery'', t_quantity = 15,
        t_unit = ''KG'', transaction_type = ''purchase'', user_id = 1,
        username = ''manager'', rate = None, amount = None, vendor = None,
        t_notes = Some ''Adjusted by Manager'', created_at = (4, 0)\<rparr>]\<rparr>"

definition kitchen_txn :: "datetime \<Rightarrow> txn" where
  "kitchen_txn ts = \<lparr>t_item_name = ''Rice'', t_category = ''Grocery'', t_quantity = 4,
        t_unit = ''KG'', transaction_type = ''kitchen'', user_id = 3,
        username = ''kitchen_manager'', rate = None, amount = None, vendor = None,
        t_notes = None, created_at = ts\<rparr>"

definition buy :: "int \<Rightarrow> string \<Rightarrow> rat \<Rightarrow> rat \<Rightarrow> purchase_record" where
  "buy d name q rt = \<lparr>purchase_date = (d, 0), purchase_item_name = name, purchase_quantity = q,
     purchase_unit = ''KG'', purchase_rate = rt, purchase_amount = q * rt\<rparr>"




section \<open>Results\<close>

subsection \<open>Low-stock query\<close>



subsection \<open>Rounding\<close>


lemma rint_of_int: "rint (of_int k) = k"
  by (simp add: rint_def Let_def)

lemma py_round_of_int: "py_round (of_int k) nd = of_int k"
proof -
  have "(of_int k :: rat) * 10 ^ nd = of_int (k * 10 ^ nd)" by simp
  then have "rint (of_int k * 10 ^ nd) = k * 10 ^ nd" by (simp only: rint_of_int)
  then show ?thesis by (simp add: py_round_def)
qed

lemma py_round_numeral: "py_round (numeral w) nd = numeral w"
  using py_round_of_int [of "numeral w" nd] by simp

lemma rint_mono: "x \<le> y \<Longrightarrow> rint x \<le> rint y"
proof -
  assume xy: "x \<le> y"
  have fl: "\<lfloor>x\<rfloor> \<le> \<lfloor>y\<rfloor>" using xy by (rule floor_mono)
  have lo: "\<And>z. \<lfloor>z\<rfloor> \<le> rint z" by (simp add: rint_def Let_def)
  have hi: "\<And>z. rint z \<le> \<lfloor>z\<rfloor> + 1" by (simp add: rint_def Let_def)
  show ?thesis
  proof (cases "\<lfloor>x\<rfloor> = \<lfloor>y\<rfloor>")
    case True
    then have "x - of_int \<lfloor>x\<rfloor> \<le> y - of_int \<lfloor>y\<rfloor>" using xy by simp
    then show ?thesis using True by (auto simp: rint_def Let_def)
  next
    case False
    with fl have "\<lfloor>x\<rfloor> + 1 \<le> \<lfloor>y\<rfloor>" by simp
    with hi [of x] lo [of y] show ?thesis by linarith
  qed
qed

lemma py_round_mono: "x \<le> y \<Longrightarrow> py_round x nd \<le> py_round y nd"
proof -
  assume "x \<le> y"
  then have "x * 10 ^ nd \<le> y * 10 ^ nd" by (simp add: mult_right_mono)
  then have "rint (x * 10 ^ nd) \<le> rint (y * 10 ^ nd)" by (rule rint_mono)
  then show ?thesis by (simp add: py_round_def divide_right_mono)
qed

lemma py_round_zero: "py_round 0 nd = 0"
  using py_round_of_int [of 0 nd] by simp

lemma py_round_nonneg: "0 \<le> x \<Longrightarrow> 0 \<le> py_round x nd"
  using py_round_mono [of 0 x nd] by (simp add: py_round_zero)

lemma py_round_idem: "py_round (py_round x nd) nd = py_round x nd"
proof -
  have "py_round x nd * 10 ^ nd = of_int (rint (x * 10 ^ nd))"
    by (simp add: py_round_def)
  then have "rint (py_round x nd * 10 ^ nd) = rint (x * 10 ^ nd)"
    by (simp only: rint_of_int)
  then show ?thesis by (simp add: py_round_def)
qed


subsection \<open>Table lookups\<close>

lemma select_item_None_iff: "select_item tbl n = None \<longleftrightarrow> n \<notin> item_name ` set tbl"
  by (auto simp: select_item_def find_None_iff)

lemma select_item_snoc:
  "select_item (tbl @ [r]) n =
     (case select_item tbl n of Some x \<Rightarrow> Some x
      | None \<Rightarrow> if item_name r = n then Some r else None)"
  by (induction tbl) (auto simp: select_item_def)

lemma update_where_absent: "n \<notin> item_name ` set tbl \<Longrightarrow> update_where n f tbl = tbl"
  by (induction tbl) (auto simp: update_where_def)

lemma update_where_snoc:
  "update_where n f (tbl @ [r]) = update_where n f tbl @ [if item_name r = n then f r else r]"
  by (simp add: update_where_def)

lemma filter_absent: "n \<notin> item_name ` set tbl \<Longrightarrow> filter (\<lambda>r. item_name r = n) tbl = []"
  by (induction tbl) auto

subsection \<open>Purchase and issue on one item\<close>

text \<open>
  C3. In a store without item \<open>X\<close>, purchasing 10 and then 5 of \<open>X\<close> leaves one row
  for \<open>X\<close> with quantity 15 and total_purchased 15; issuing 12 succeeds and leaves
  quantity 3; issuing 10 from that store fails with the not-enough-stock result
  (available 3). A failing \<open>remove_item\<close> returns before any UPDATE or INSERT, so the
  store after it is still the store \<open>s3\<close> whose quantity is 3.
\<close>

theorem ledger_scenario:
  assumes "select_item (store_inventory s) X = None"
  shows "let s1 = snd (add_item t1 X cat 10 un uid uname rt amt vnd s);
             s2 = snd (add_item t2 X cat2 5 un2 uid uname rt2 amt2 vnd2 s1)
         in map (\<lambda>r. (quantity r, total_purchased r)) (rows_of s2 X) = [(15, 15)]
          \<and> (\<exists>s3. remove_item t3 X 12 kid kname nts s2 = Inr s3
                \<and> map quantity (rows_of s3 X) = [3]
                \<and> remove_item t4 X 10 kid kname nts2 s3 = Inl (NotEnoughStock 3 un))"
proof -
  from assms have abs: "X \<notin> item_name ` set (store_inventory s)"
    by (simp add: select_item_None_iff)
  show ?thesis
    using assms abs
    by (simp add: add_item_def remove_item_def Let_def rows_of_def select_item_snoc
        update_where_snoc update_where_absent filter_absent py_round_numeral)
qed

subsection \<open>Invariants of purchase and issue\<close>

lemma select_item_mem: "select_item tbl n = Some e \<Longrightarrow> e \<in> set tbl \<and> item_name e = n"
  by (induction tbl) (auto simp: select_item_def split: if_splits)

lemma set_update_where:
  "r \<in> set (update_where n f tbl) \<Longrightarrow>
     (r \<in> set tbl \<and> item_name r \<noteq> n) \<or> (\<exists>r0 \<in> set tbl. item_name r0 = n \<and> r = f r0)"
  by (auto simp: update_where_def split: if_splits)

lemma names_update_where:
  "(\<And>r. item_name (f r) = item_name r) \<Longrightarrow>
     map item_name (update_where n f tbl) = map item_name tbl"
  by (induction tbl) (auto simp: update_where_def)

lemma distinct_names_unique:
  "distinct (map item_name tbl) \<Longrightarrow> r \<in> set tbl \<Longrightarrow> e \<in> set tbl \<Longrightarrow>
     item_name r = item_name e \<Longrightarrow> r = e"
  by (induction tbl) (auto simp: image_iff)

lemma add_item_ok:
  assumes ok: "ledger_ok s" and pos: "0 < qty"
  shows "ledger_ok (snd (add_item now name cat qty un uid uname rt amt vnd s))"
proof (cases "select_item (store_inventory s) name")
  case None
  have "0 \<le> py_round qty 3" using pos by (simp add: py_round_nonneg)
  moreover from None have "name \<notin> item_name ` set (store_inventory s)"
    by (simp add: select_item_None_iff)
  ultimately show ?thesis using ok None
    by (auto simp: add_item_def Let_def ledger_ok_def py_round_idem)
next
  case (Some e)
  then have e: "e \<in> set (store_inventory s)" by (simp add: select_item_mem)
  with ok have q: "0 \<le> quantity e" "quantity e \<le> total_purchased e"
    by (auto simp: ledger_ok_def)
  have r0: "0 \<le> py_round qty 3" using pos by (simp add: py_round_nonneg)
  have a: "0 \<le> py_round (quantity e + py_round qty 3) 3"
    using q r0 by (simp add: py_round_nonneg)
  have b: "py_round (quantity e + py_round qty 3) 3 \<le> py_round (total_purchased e + py_round qty 3) 3"
    using q by (simp add: py_round_mono)
  show ?thesis using ok Some a b
    by (auto simp: add_item_def Let_def ledger_ok_def py_round_idem names_update_where
        dest!: set_update_where)
qed

lemma remove_item_ok:
  assumes ok: "ledger_ok s" and pos: "0 < qty"
    and res: "remove_item now name qty uid uname nts s = Inr s'"
  shows "ledger_ok s'"
proof (cases "select_item (store_inventory s) name")
  case None
  with res show ?thesis by (simp add: remove_item_def Let_def)
next
  case (Some e)
  then have e: "e \<in> set (store_inventory s)" "item_name e = name"
    by (simp_all add: select_item_mem)
  from ok have d: "distinct (map item_name (store_inventory s))" by (simp add: ledger_ok_def)
  from e ok have q: "quantity e \<le> total_purchased e" "py_round (total_purchased e) 3 = total_purchased e"
    by (auto simp: ledger_ok_def)
  have r0: "0 \<le> py_round qty 3" using pos by (simp add: py_round_nonneg)
  define nq where "nq = py_round (py_round (quantity e) 3 - py_round qty 3) 3"
  define new_quantity where "new_quantity = (if nq < 0 then 0 else nq)"
  have "py_round (quantity e) 3 - py_round qty 3 \<le> total_purchased e"
    using py_round_mono [OF q(1), of 3] q(2) r0 by linarith
  then have "nq \<le> py_round (total_purchased e) 3"
    unfolding nq_def by (rule py_round_mono)
  then have up: "nq \<le> total_purchased e" using q(2) by simp
  have tp0: "0 \<le> total_purchased e" using e ok by (force simp: ledger_ok_def)
  have bounds: "0 \<le> new_quantity" "new_quantity \<le> total_purchased e"
    using up tp0 by (auto simp: new_quantity_def)
  have same: "\<And>r0. r0 \<in> set (store_inventory s) \<Longrightarrow> item_name r0 = name \<Longrightarrow> r0 = e"
    using distinct_names_unique [OF d _ e(1)] e(2) by simp
  have inv': "store_inventory s' =
      update_where name (\<lambda>r. r\<lparr>quantity := new_quantity, last_updated := now\<rparr>) (store_inventory s)"
    using res Some
    by (auto simp: remove_item_def Let_def new_quantity_def nq_def split: if_splits)
  let ?tbl' = "update_where name (\<lambda>r. r\<lparr>quantity := new_quantity, last_updated := now\<rparr>) (store_inventory s)"
  have d': "distinct (map item_name ?tbl')"
    using d by (simp add: names_update_where)
  have rows: "\<forall>r \<in> set ?tbl'. 0 \<le> quantity r \<and> quantity r \<le> total_purchased r
                  \<and> py_round (total_purchased r) 3 = total_purchased r"
  proof (rule ballI)
    fix r assume "r \<in> set ?tbl'"
    then consider "r \<in> set (store_inventory s)"
      | "r = e\<lparr>quantity := new_quantity, last_updated := now\<rparr>"
      using same by (auto dest!: set_update_where)
    then show "0 \<le> quantity r \<and> quantity r \<le> total_purchased r \<and> py_round (total_purchased r) 3 = total_purchased r"
    proof cases
      case 1 then show ?thesis using ok by (simp add: ledger_ok_def)
    next
      case 2 then show ?thesis using bounds q(2) by simp
    qed
  qed
  show ?thesis
    unfolding ledger_ok_def inv' using d' rows by blast
qed

lemma select_item_update_where:
  "(\<And>r. item_name (f r) = item_name r) \<Longrightarrow>
     select_item (update_where n f tbl) m =
       (if m = n then map_option f (select_item tbl m) else select_item tbl m)"
  by (induction tbl) (auto simp: update_where_def select_item_def)

lemma total_of_add_item:
  assumes ok: "ledger_ok s" and pos: "0 < qty"
  shows "total_of s n \<le> total_of (snd (add_item now name cat qty un uid uname rt amt vnd s)) n"
proof (cases "select_item (store_inventory s) name")
  case None
  have "0 \<le> py_round qty 3" using pos by (simp add: py_round_nonneg)
  then show ?thesis using None
    by (auto simp: add_item_def Let_def total_of_def select_item_snoc split: option.splits)
next
  case (Some e)
  then have e: "e \<in> set (store_inventory s)" by (simp add: select_item_mem)
  with ok have q: "py_round (total_purchased e) 3 = total_purchased e"
    by (auto simp: ledger_ok_def)
  have r0: "0 \<le> py_round qty 3" using pos by (simp add: py_round_nonneg)
  have "py_round (total_purchased e) 3 \<le> py_round (total_purchased e + py_round qty 3) 3"
    using r0 by (intro py_round_mono) simp
  then have "total_purchased e \<le> py_round (total_purchased e + py_round qty 3) 3"
    using q by simp
  then show ?thesis using Some
    by (auto simp: add_item_def Let_def total_of_def select_item_update_where split: option.splits)
qed

lemma total_of_remove_item:
  assumes "remove_item now name qty uid uname nts s = Inr s'"
  shows "total_of s' n = total_of s n"
  using assms
  by (auto simp: remove_item_def Let_def total_of_def select_item_update_where
      split: option.splits if_splits)

lemma apply_request_ok:
  assumes "ledger_ok s" and "positive_stock_op (req_op rq)"
  shows "ledger_ok (apply_request rq s) \<and> (\<forall>n. total_of s n \<le> total_of (apply_request rq s) n)"
proof (cases "req_op rq")
  case (Purchase name cat qty un rt amt vnd)
  then show ?thesis using assms
    by (simp add: apply_request_def add_item_ok total_of_add_item)
next
  case (Issue name qty nts)
  then show ?thesis using assms
    by (auto simp: apply_request_def remove_item_ok total_of_remove_item split: sum.splits)
qed (use assms in simp_all)

lemma run_ok:
  assumes "ledger_ok s" and "\<forall>rq \<in> set rqs. positive_stock_op (req_op rq)"
  shows "ledger_ok (run rqs s) \<and> (\<forall>n. total_of s n \<le> total_of (run rqs s) n)"
  using assms
proof (induction rqs arbitrary: s)
  case Nil
  then show ?case by (simp add: run_def)
next
  case (Cons rq rqs)
  from Cons.prems have st: "ledger_ok (apply_request rq s)"
      "\<forall>n. total_of s n \<le> total_of (apply_request rq s) n"
    using apply_request_ok [of s rq] by auto
  from Cons.IH [OF st(1)] Cons.prems(2)
  have "ledger_ok (run rqs (apply_request rq s))"
       "\<forall>n. total_of (apply_request rq s) n \<le> total_of (run rqs (apply_request rq s)) n"
    by auto
  with st(2) show ?case
    by (auto simp: run_def intro: order_trans)
qed

lemma ledger_ok_empty: "ledger_ok empty_store"
  by (simp add: ledger_ok_def empty_store_def)

lemma run_append: "run (pre @ post) s = run post (run pre s)"
  by (simp add: run_def)

text \<open>
  C2 (as amended). For every sequence of purchases and issues with positive quantities,
  run from the empty store: after every operation each row has
  \<open>0 \<le> quantity \<le> total_purchased\<close>, and the total_purchased of every item name
  never decreases from one prefix of the sequence to a longer one.
\<close>

theorem purchase_issue_invariants:
  assumes "\<forall>rq \<in> set (pre @ post). positive_stock_op (req_op rq)"
  shows "(\<forall>r \<in> set (store_inventory (run pre empty_store)).
            0 \<le> quantity r \<and> quantity r \<le> total_purchased r)
       \<and> (\<forall>n. total_of (run pre empty_store) n \<le> total_of (run (pre @ post) empty_store) n)"
proof -
  from assms have p1: "\<forall>rq \<in> set pre. positive_stock_op (req_op rq)"
    and p2: "\<forall>rq \<in> set post. positive_stock_op (req_op rq)" by auto
  from run_ok [OF ledger_ok_empty p1] have ok: "ledger_ok (run pre empty_store)" by simp
  from run_ok [OF ok p2] show ?thesis using ok
    by (simp add: run_append ledger_ok_def)
qed

text \<open>
  C2 as stated includes the manager operations. \<open>manager_update_item\<close> writes the
  quantity it is given and leaves total_purchased alone: after a purchase of 10, an update
  to 25 leaves quantity 25 above total_purchased 10.
\<close>

theorem manager_update_breaks_bound:
  "store_inventory
     (run [request_of (Purchase ''Rice'' ''Grocery'' 10 ''KG'' None None None),
           request_of (ManagerUpdate ''Rice'' ''Rice'' ''Grocery'' 25 ''KG'')] empty_store)
   = [\<lparr>item_name = ''Rice'', category = ''Grocery'', quantity = 25, unit = ''KG'',
       total_purchased = 10, last_updated = (20000, 0)\<rparr>]
   \<and> \<not> (25 :: rat) \<le> 10"
  by (simp add: run_def request_of_def apply_request_def add_item_def manager_update_item_def
      empty_store_def select_item_def update_where_def Let_def py_round_numeral)

theorem purchase_issue_invariants_witness:
  "list_all (\<lambda>r. 0 \<le> quantity r \<and> quantity r \<le> total_purchased r)
     (store_inventory (run [request_of (Purchase ''Rice'' ''Grocery'' 10 ''KG'' None None None)] empty_store))
    \<and> total_of (run [request_of (Purchase ''Rice'' ''Grocery'' 10 ''KG'' None None None)] empty_store) ''Rice''
       \<le> total_of (run ([request_of (Purchase ''Rice'' ''Grocery'' 10 ''KG'' None None None)]
                        @ [request_of (Issue ''Rice'' 4 None)]) empty_store) ''Rice''"
  using purchase_issue_invariants [of "[request_of (Purchase ''Rice'' ''Grocery'' 10 ''KG'' None None None)]"
      "[request_of (Issue ''Rice'' 4 None)]"]
  by (simp add: request_of_def list_all_iff)

theorem ledger_scenario_witness:
  "let s1 = snd (add_item (1,0) ''Rice'' ''Grocery'' 10 ''KG'' 2 ''purchase_manager'' None None None empty_store);
       s2 = snd (add_item (2,0) ''Rice'' ''Grocery'' 5 ''KG'' 2 ''purchase_manager'' None None None s1)
   in map (\<lambda>r. (quantity r, total_purchased r)) (rows_of s2 ''Rice'') = [(15, 15)]
    \<and> (\<exists>s3. remove_item (3,0) ''Rice'' 12 3 ''kitchen_manager'' None s2 = Inr s3
          \<and> map quantity (rows_of s3 ''Rice'') = [3]
          \<and> remove_item (4,0) ''Rice'' 10 3 ''kitchen_manager'' None s3 = Inl (NotEnoughStock 3 ''KG''))"
  using ledger_scenario [of empty_store "''Rice''"]
  by (simp add: empty_store_def select_item_def)

subsection \<open>The purchase request\<close>

text \<open>
  C7 as stated has the purchase add \<open>qty\<close> itself. \<open>add_item\<close> first rounds the
  quantity to three decimals: a purchase of 0.0004 passes the required-fields check and
  creates the item with quantity 0 and total_purchased 0.
\<close>

theorem api_purchase_rounds_counterexample:
  "api_purchase (1, 0) 2 ''purchase_manager'' ''Rice'' ''Grocery'' (1/2500) ''KG'' None None None
     empty_store
   = Inr \<lparr>store_inventory =
            [\<lparr>item_name = ''Rice'', category = ''Grocery'', quantity = 0, unit = ''KG'',
              total_purchased = 0, last_updated = (1, 0)\<rparr>],
          transactions =
            [\<lparr>t_item_name = ''Rice'', t_category = ''Grocery'', t_quantity = 0, t_unit = ''KG'',
              transaction_type = ''purchase'', user_id = 2, username = ''purchase_manager'',
              rate = None, amount = None, vendor = None, t_notes = None, created_at = (1, 0)\<rparr>]\<rparr>
   \<and> (0 :: rat) \<noteq> 1/2500"
  by code_simp

text \<open>
  The required-fields check of \<open>api_purchase\<close> rejects the quantity 0 only; unlike
  \<open>api_kitchen\<close> it has no test \<open>quantity <= 0\<close>, and a negative quantity is booked.
\<close>

lemma api_purchase_negative:
  "api_purchase (1, 0) 2 ''purchase_manager'' ''Rice'' ''Grocery'' (- 5) ''KG'' None None None
     empty_store
   = Inr \<lparr>store_inventory =
            [\<lparr>item_name = ''Rice'', category = ''Grocery'', quantity = - 5, unit = ''KG'',
              total_purchased = - 5, last_updated = (1, 0)\<rparr>],
          transactions =
            [\<lparr>t_item_name = ''Rice'', t_category = ''Grocery'', t_quantity = - 5, t_unit = ''KG'',
              transaction_type = ''purchase'', user_id = 2, username = ''purchase_manager'',
              rate = None, amount = None, vendor = None, t_notes = None, created_at = (1, 0)\<rparr>]\<rparr>"
  by code_simp

lemma api_purchase_zero:
  "api_purchase now uid uname name cat 0 un rt amt vnd s = Inl MissingRequiredFields"
  by (simp add: api_purchase_def)

lemma api_purchase_positive:
  assumes "0 < qty" "name \<noteq> []" "cat \<noteq> []" "un \<noteq> []"
  shows "\<exists>s'. api_purchase now uid uname name cat qty un rt amt vnd s = Inr s'
        \<and> select_item (store_inventory s') name =
            (case select_item (store_inventory s) name of
               Some e \<Rightarrow> Some (e\<lparr>quantity := py_round (quantity e + py_round qty 3) 3,
                                 total_purchased := py_round (total_purchased e + py_round qty 3) 3,
                                 last_updated := now\<rparr>)
             | None \<Rightarrow> Some \<lparr>item_name = name, category = cat, quantity = py_round qty 3,
                              unit = un, total_purchased = py_round qty 3, last_updated = now\<rparr>)
        \<and> (\<forall>n. n \<noteq> name \<longrightarrow> select_item (store_inventory s') n = select_item (store_inventory s) n)
        \<and> transactions s' = transactions s @
             [\<lparr>t_item_name = name, t_category = cat, t_quantity = py_round qty 3, t_unit = un,
               transaction_type = ''purchase'', user_id = uid, username = uname,
               rate = rt, amount = amt, vendor = vnd, t_notes = None, created_at = now\<rparr>]"
  using assms
  by (cases "select_item (store_inventory s) name")
     (auto simp: api_purchase_def add_item_def Let_def select_item_snoc select_item_update_where
           split: option.splits)

text \<open>
  C7 (as amended). A purchase request with quantity 0 fails. With a positive quantity and
  non-empty name, category and unit it succeeds: an existing item gets the rounded
  quantity added to both quantity and total_purchased (each sum rounded to three
  decimals), a new item is created with quantity = total_purchased = the rounded
  quantity; every other item is as before, and one purchase transaction is appended.
\<close>

theorem api_purchase_behaviour:
  "api_purchase now uid uname name cat 0 un rt amt vnd s = Inl MissingRequiredFields
   \<and> (0 < qty \<and> name \<noteq> [] \<and> cat \<noteq> [] \<and> un \<noteq> [] \<longrightarrow>
       (\<exists>s'. api_purchase now uid uname name cat qty un rt amt vnd s = Inr s'
        \<and> select_item (store_inventory s') name =
            (case select_item (store_inventory s) name of
               Some e \<Rightarrow> Some (e\<lparr>quantity := py_round (quantity e + py_round qty 3) 3,
                                 total_purchased := py_round (total_purchased e + py_round qty 3) 3,
                                 last_updated := now\<rparr>)
             | None \<Rightarrow> Some \<lparr>item_name = name, category = cat, quantity = py_round qty 3,
                              unit = un, total_purchased = py_round qty 3, last_updated = now\<rparr>)
        \<and> (\<forall>n. n \<noteq> name \<longrightarrow> select_item (store_inventory s') n = select_item (store_inventory s) n)
        \<and> transactions s' = transactions s @
             [\<lparr>t_item_name = name, t_category = cat, t_quantity = py_round qty 3, t_unit = un,
               transaction_type = ''purchase'', user_id = uid, username = uname,
               rate = rt, amount = amt, vendor = vnd, t_notes = None, created_at = now\<rparr>]))"
proof (rule conjI)
  show "api_purchase now uid uname name cat 0 un rt amt vnd s = Inl MissingRequiredFields"
    by (rule api_purchase_zero)
next
  show "0 < qty \<and> name \<noteq> [] \<and> cat \<noteq> [] \<and> un \<noteq> [] \<longrightarrow>
       (\<exists>s'. api_purchase now uid uname name cat qty un rt amt vnd s = Inr s'
        \<and> select_item (store_inventory s') name =
            (case select_item (store_inventory s) name of
               Some e \<Rightarrow> Some (e\<lparr>quantity := py_round (quantity e + py_round qty 3) 3,
                                 total_purchased := py_round (total_purchased e + py_round qty 3) 3,
                                 last_updated := now\<rparr>)
             | None \<Rightarrow> Some \<lparr>item_name = name, category = cat, quantity = py_round qty 3,
                              unit = un, total_purchased = py_round qty 3, last_updated = now\<rparr>)
        \<and> (\<forall>n. n \<noteq> name \<longrightarrow> select_item (store_inventory s') n = select_item (store_inventory s) n)
        \<and> transactions s' = transactions s @
             [\<lparr>t_item_name = name, t_category = cat, t_quantity = py_round qty 3, t_unit = un,
               transaction_type = ''purchase'', user_id = uid, username = uname,
               rate = rt, amount = amt, vendor = vnd, t_notes = None, created_at = now\<rparr>])"
    using api_purchase_positive [of qty name cat un now uid uname rt amt vnd s] by (intro impI) (elim conjE)
qed

theorem api_purchase_behaviour_witness:
  "\<exists>s'. api_purchase (1,0) 2 ''purchase_manager'' ''Rice'' ''Grocery'' 10 ''KG'' None None None empty_store = Inr s'
      \<and> select_item (store_inventory s') ''Rice'' =
          Some \<lparr>item_name = ''Rice'', category = ''Grocery'', quantity = 10,
                unit = ''KG'', total_purchased = 10, last_updated = (1,0)\<rparr>"
  using api_purchase_behaviour [of "(1,0)" 2 "''purchase_manager''" "''Rice''" "''Grocery''" "''KG''"
      None None None empty_store 10]
  by (auto simp: empty_store_def select_item_def py_round_numeral)

subsection \<open>Frame of issue and manager update\<close>

lemma remove_item_frame:
  assumes "remove_item now name qty uid uname nts s = Inr s'"
  shows "list_all2 (\<lambda>r r'. item_name r' = item_name r \<and> category r' = category r
                       \<and> unit r' = unit r \<and> total_purchased r' = total_purchased r
                       \<and> (item_name r \<noteq> name \<longrightarrow> r' = r))
           (store_inventory s) (store_inventory s')"
  using assms
  by (auto simp: remove_item_def Let_def update_where_def list_all2_map2 list_all2_same
      split: option.splits if_splits)

lemma manager_update_item_frame:
  assumes "manager_update_item now original_name name cat qty un uid uname s = Inr s'"
  shows "list_all2 (\<lambda>r r'. total_purchased r' = total_purchased r
                       \<and> (item_name r \<noteq> original_name \<longrightarrow> r' = r))
           (store_inventory s) (store_inventory s')"
  using assms
  by (auto simp: manager_update_item_def Let_def update_where_def list_all2_map2 list_all2_same
      split: option.splits if_splits)

text \<open>
  C9. A successful \<open>remove_item\<close> keeps the table row by row: item_name, category, unit
  and total_purchased of every row are unchanged, and a row of another item is unchanged
  altogether (so only quantity and last_updated of the issued item can differ). A
  successful \<open>manager_update_item\<close> keeps total_purchased of every row, the target included.
\<close>

theorem issue_and_update_frame:
  "(remove_item now name qty uid uname nts s = Inr s' \<longrightarrow>
     list_all2 (\<lambda>r r'. item_name r' = item_name r \<and> category r' = category r
                       \<and> unit r' = unit r \<and> total_purchased r' = total_purchased r
                       \<and> (item_name r \<noteq> name \<longrightarrow> r' = r))
           (store_inventory s) (store_inventory s'))
   \<and> (manager_update_item now2 original_name name2 cat2 qty2 un2 uid2 uname2 s = Inr s2 \<longrightarrow>
     list_all2 (\<lambda>r r'. total_purchased r' = total_purchased r
                       \<and> (item_name r \<noteq> original_name \<longrightarrow> r' = r))
           (store_inventory s) (store_inventory s2))"
  using remove_item_frame manager_update_item_frame by blast

lemma remove_item_rice: "remove_item (3, 0) ''Rice'' 4 3 ''kitchen_manager'' None rice_store = Inr issued_store"
  by (simp add: remove_item_def rice_store_def issued_store_def stock_row_def select_item_def
      update_where_def Let_def py_round_numeral)

lemma manager_update_item_rice: "manager_update_item (4, 0) ''Rice'' ''Basmati'' ''Grocery'' 25 ''KG'' 1 ''manager'' rice_store = Inr updated_store"
  by (simp add: manager_update_item_def rice_store_def updated_store_def stock_row_def select_item_def
      update_where_def Let_def)

theorem issue_and_update_frame_witness:
  "remove_item (3, 0) ''Rice'' 4 3 ''kitchen_manager'' None rice_store = Inr issued_store
   \<and> map total_purchased (store_inventory issued_store) = map total_purchased (store_inventory rice_store)
   \<and> map item_name (store_inventory issued_store) = map item_name (store_inventory rice_store)
   \<and> manager_update_item (4, 0) ''Rice'' ''Basmati'' ''Grocery'' 25 ''KG'' 1 ''manager'' rice_store = Inr updated_store
   \<and> map total_purchased (store_inventory updated_store) = map total_purchased (store_inventory rice_store)"
  using issue_and_update_frame [of "(3, 0)" "''Rice''" 4 3 "''kitchen_manager''" None rice_store
      issued_store "(4, 0)" "''Rice''" "''Basmati''" "''Grocery''" 25 "''KG''" 1 "''manager''" updated_store]
    remove_item_rice manager_update_item_rice
  by (simp add: rice_store_def issued_store_def updated_store_def stock_row_def)

subsection \<open>Transaction history\<close>

lemma set_sql_limit: "set (sql_limit limit rows) \<subseteq> set rows"
  by (auto simp: sql_limit_def dest: in_set_takeD)

lemma length_sql_limit: "0 \<le> limit \<Longrightarrow> int (length (sql_limit limit rows)) \<le> limit"
  by (simp add: sql_limit_def)

lemma set_order_by_desc: "set (order_by_desc key rows) = set rows"
  by (simp add: order_by_desc_def)

lemma sorted_order_by_desc: "sorted (rev (map key (order_by_desc key rows)))"
  by (simp add: order_by_desc_def rev_map [symmetric])

lemma sorted_rev_take: "sorted (rev xs) \<Longrightarrow> sorted (rev (take n xs))"
proof -
  assume "sorted (rev xs)"
  then have "sorted_wrt (\<lambda>a b. b \<le> a) xs" by (simp add: sorted_wrt_rev)
  then have "sorted_wrt (\<lambda>a b. b \<le> a) (take n xs)" by (rule sorted_wrt_take)
  then show ?thesis by (simp add: sorted_wrt_rev)
qed

lemma sorted_sql_limit:
  "sorted (rev (map key rows)) \<Longrightarrow> sorted (rev (map key (sql_limit limit rows)))"
  by (simp add: sql_limit_def take_map [symmetric] sorted_rev_take)

text \<open>
  C10. Whatever the log holds and whatever filters are given, every transaction that
  \<open>get_transactions\<close> returns is in the log and its created_at day is not earlier than
  the day thirty days before the query time; with a non-negative limit (default 50) at
  most that many are returned; and they are in descending order of created_at.
\<close>

theorem get_transactions_window:
  "(\<forall>t \<in> set (get_transactions now limit ttype date_filter from_date to_date txns).
       t \<in> set txns \<and> date_of now - 30 \<le> date_of (created_at t))
   \<and> (0 \<le> limit \<longrightarrow>
         int (length (get_transactions now limit ttype date_filter from_date to_date txns)) \<le> limit)
   \<and> sorted (rev (map created_at (get_transactions now limit ttype date_filter from_date to_date txns)))"
proof (intro conjI ballI impI)
  fix t assume "t \<in> set (get_transactions now limit ttype date_filter from_date to_date txns)"
  then have "t \<in> set (filter (\<lambda>t. date_of now - 30 \<le> date_of (created_at t)) txns)"
    unfolding get_transactions_def Let_def
    by (drule_tac set_sql_limit [THEN subsetD]) (simp add: set_order_by_desc)
  then show "t \<in> set txns" "date_of now - 30 \<le> date_of (created_at t)" by auto
next
  assume "0 \<le> limit"
  then show "int (length (get_transactions now limit ttype date_filter from_date to_date txns)) \<le> limit"
    by (simp add: get_transactions_def Let_def length_sql_limit)
next
  show "sorted (rev (map created_at (get_transactions now limit ttype date_filter from_date to_date txns)))"
    by (simp add: get_transactions_def Let_def sorted_sql_limit sorted_order_by_desc)
qed

lemma get_transactions_example:
  "get_transactions (20000, 0) 50 None None None None
     [kitchen_txn (19960, 0), kitchen_txn (19990, 100), kitchen_txn (19995, 5)]
   = [kitchen_txn (19995, 5), kitchen_txn (19990, 100)]"
  by code_simp

theorem get_transactions_window_witness:
  "get_transactions (20000, 0) 50 None None None None
     [kitchen_txn (19960, 0), kitchen_txn (19990, 100), kitchen_txn (19995, 5)]
   = [kitchen_txn (19995, 5), kitchen_txn (19990, 100)]
   \<and> list_all (\<lambda>t. (19970::int) \<le> date_of (created_at t))
        (get_transactions (20000, 0) 50 None None None None
           [kitchen_txn (19960, 0), kitchen_txn (19990, 100), kitchen_txn (19995, 5)])
   \<and> int (length (get_transactions (20000, 0) 50 None None None None
           [kitchen_txn (19960, 0), kitchen_txn (19990, 100), kitchen_txn (19995, 5)])) \<le> 50"
  using get_transactions_window [of "(20000, 0)" 50 None None None None
      "[kitchen_txn (19960, 0), kitchen_txn (19990, 100), kitchen_txn (19995, 5)]"]
    get_transactions_example
  by (simp add: list_all_iff date_of_def)

subsection \<open>Frames: grouping, joining, sorting\<close>


lemma keys_groupby: "map fst (groupby key rows) = sort (remdups (map key rows))"
  by (simp add: groupby_def comp_def)

lemma set_keys_groupby: "set (map fst (groupby key rows)) = key ` set rows"
  by (simp add: keys_groupby)


lemma keys_groupby_agg:
  "map fst (map (\<lambda>(k, grp). (k, f k grp)) (groupby key rows)) = sort (remdups (map key rows))"
  by (simp add: groupby_def comp_def)











subsection \<open>Leakage and waste\<close>













subsection \<open>Theoretical against actual consumption\<close>


















subsection \<open>Purchase price trends\<close>

text \<open>
  C6. For the purchases of one item at rate 0 and then at rate 50 the claim gives the
  change 0; \<open>price_trend_analysis\<close> has no guard on the first price and its division
  gives plus infinity.
\<close>

theorem price_trend_zero_first_price:
  "price_trend_analysis [buy 1 ''Rice'' 2 0, buy 2 ''Rice'' 2 50]
   = Some [(''Rice'', \<lparr>trend_dates = [(1, 0), (2, 0)], prices = [0, 50], first_price = 0,
                        last_price = 50, change = PInf\<rparr>)]"
  by code_simp

lemma price_trend_rising:
  "price_trend_analysis [buy 2 ''Rice'' 2 120, buy 1 ''Rice'' 2 100]
   = Some [(''Rice'', \<lparr>trend_dates = [(1, 0), (2, 0)], prices = [100, 120], first_price = 100,
                        last_price = 120, change = Fin 20\<rparr>)]"
  by code_simp

lemma trend_of_change:
  "trend_of (r # rs) = Some t \<Longrightarrow> purchase_rate r \<noteq> 0 \<Longrightarrow>
     change t = Fin ((purchase_rate (last (r # rs)) - purchase_rate r) / purchase_rate r * 100)"
  by (auto simp: trend_of_def Let_def)

subsection \<open>Menu engineering\<close>








lemma fl_ge_refl: "\<not> is_nan x \<Longrightarrow> fl_ge x x"
  by (simp add: fl_ge_def)




subsection \<open>The price trend analysis always returns\<close>

text \<open>
  Every item of the top five has at least one purchase row, so the reads of the first
  and the last row never fail and a trend is returned for each of the items.
\<close>

lemma those_map_Some:
  "(\<And>x. x \<in> set xs \<Longrightarrow> f x \<noteq> None) \<Longrightarrow> those (map f xs) = Some (map (\<lambda>x. the (f x)) xs)"
  by (induction xs) (auto split: option.splits)

lemma top_items_subset: "set (top_items purchase_df) \<subseteq> purchase_item_name ` set purchase_df"
proof -
  let ?totals = "map (\<lambda>(k, grp). (k, sum_list (map purchase_amount grp)))
          (groupby purchase_item_name purchase_df)"
  have "set (top_items purchase_df) \<subseteq> fst ` set (order_by_desc snd ?totals)"
    unfolding top_items_def by (auto dest: in_set_takeD)
  also have "\<dots> = fst ` set ?totals" by (simp add: set_order_by_desc)
  also have "\<dots> = purchase_item_name ` set purchase_df"
    by (simp add: groupby_def image_image)
  finally show ?thesis .
qed

lemma item_trend_Some:
  assumes "item \<in> purchase_item_name ` set purchase_df"
  shows "\<exists>t. item_trend purchase_df item = Some (item, t)"
proof -
  let ?data = "sort_key purchase_date (filter (\<lambda>r. purchase_item_name r = item) purchase_df)"
  from assms have "filter (\<lambda>r. purchase_item_name r = item) purchase_df \<noteq> []"
    by (auto simp: filter_empty_conv)
  then have "?data \<noteq> []" by (metis length_sort list.size(3) length_0_conv)
  then obtain r rs where "?data = r # rs" by (cases ?data) auto
  then show ?thesis
    by (simp add: item_trend_def trend_of_def Let_def)
qed

lemma price_trend_analysis_returns:
  "\<exists>trends. price_trend_analysis purchase_df = Some trends
     \<and> map fst trends = top_items purchase_df"
proof -
  have some: "\<And>x. x \<in> set (top_items purchase_df) \<Longrightarrow> \<exists>t. item_trend purchase_df x = Some (x, t)"
  proof -
    fix x assume "x \<in> set (top_items purchase_df)"
    then have "x \<in> purchase_item_name ` set purchase_df"
      using top_items_subset [of purchase_df] by (rule_tac subsetD)
    then show "\<exists>t. item_trend purchase_df x = Some (x, t)" by (rule item_trend_Some)
  qed
  have ok: "\<And>x. x \<in> set (top_items purchase_df) \<Longrightarrow> item_trend purchase_df x \<noteq> None"
  proof -
    fix x assume "x \<in> set (top_items purchase_df)"
    from some [OF this] obtain t where "item_trend purchase_df x = Some (x, t)" ..
    then show "item_trend purchase_df x \<noteq> None" by simp
  qed
  have fst_the: "\<And>x. x \<in> set (top_items purchase_df) \<Longrightarrow> fst (the (item_trend purchase_df x)) = x"
  proof -
    fix x assume "x \<in> set (top_items purchase_df)"
    from some [OF this] obtain t where "item_trend purchase_df x = Some (x, t)" ..
    then show "fst (the (item_trend purchase_df x)) = x" by simp
  qed
  have r: "price_trend_analysis purchase_df
        = Some (map (\<lambda>x. the (item_trend purchase_df x)) (top_items purchase_df))"
    unfolding price_trend_analysis_def by (rule those_map_Some) (rule ok)
  have n: "map fst (map (\<lambda>x. the (item_trend purchase_df x)) (top_items purchase_df))
        = top_items purchase_df"
    using fst_the by (simp add: map_idI)
  show ?thesis
    by (rule exI [of _ "map (\<lambda>x. the (item_trend purchase_df x)) (top_items purchase_df)"])
       (intro conjI r n)
qed

end
